theory Spec2Isabelle
  imports Complex_Main "HOL-Library.Word"
begin

section \<open>The wireframe viewer of src/main.c\<close>

text \<open>
  The embedding follows \<^verbatim>\<open>src/main.c\<close>: the application record \<^verbatim>\<open>SoftwareRenderer\<close>, the
  frame functions \<^verbatim>\<open>init\<close>, \<^verbatim>\<open>update\<close>, \<^verbatim>\<open>draw\<close>, the event handlers and the two helpers
  \<^verbatim>\<open>calculateSceneRadius\<close> and \<^verbatim>\<open>calculateCameraPosAndSpeed\<close>.

  Numbers. A C \<^verbatim>\<open>double\<close> that takes part in arithmetic is a real number: rounding, overflow
  and infinities are outside the model. The one operation of the vector library that divides
  by a computed length, \<^verbatim>\<open>Vec3_setLength\<close>, has a branch of its own for a vector of length zero,
  where the division would be by zero. \<^verbatim>\<open>main.c\<close> calls it as a statement and never tests an
  outcome, so every function of \<^verbatim>\<open>main.c\<close> but \<^verbatim>\<open>draw\<close> is total here, as it is in C.
  The coordinates of a projected point are never computed with in \<^verbatim>\<open>main.c\<close>, only compared
  with \<^verbatim>\<open>NAN\<close>; they get a type of their own that has the NaN value. The tick counters are
  \<^verbatim>\<open>Uint32\<close>, hence 32-bit words with wrap-around.

  The headers \<^verbatim>\<open>vec3.h\<close>, \<^verbatim>\<open>camera.h\<close>, \<^verbatim>\<open>point.h\<close>, \<^verbatim>\<open>scene.h\<close> and \<^verbatim>\<open>ccanvas.h\<close> and their
  implementations are not available. What \<^verbatim>\<open>main.c\<close> needs of them is either
  modelled from the specification (each such definition says so) or, where the specification
  fixes no formula, taken as a field of the record \<open>Extern\<close> that every function receives.
\<close>

subsection \<open>vec3.h\<close>

text \<open>Modelled from the spec: the type \<^verbatim>\<open>Vec3\<close> (vec3.h is missing), the value type \<open>{x, y, z}\<close>
  of section 3; \<^verbatim>\<open>Vec3_new(x, y, z)\<close> builds one.\<close>

datatype Vec3 = Vec3_new (Vec3_x: real) (Vec3_y: real) (Vec3_z: real)

text \<open>Modelled from the spec: \<^verbatim>\<open>Vec3_copy\<close> (missing), a copy of the value.\<close>

definition Vec3_copy :: "Vec3 \<Rightarrow> Vec3" where
  "Vec3_copy v = v"

text \<open>Modelled from the spec: \<^verbatim>\<open>Vec3_add\<close>, \<^verbatim>\<open>Vec3_sub\<close>, \<^verbatim>\<open>Vec3_mult\<close> (missing), the operations
  \<open>add\<close>, \<open>subtract\<close> and \<open>scale(scalar)\<close> of section 4.1. The C functions overwrite their
  first argument; here the new value is returned.\<close>

definition Vec3_add :: "Vec3 \<Rightarrow> Vec3 \<Rightarrow> Vec3" where
  "Vec3_add v w = Vec3_new (Vec3_x v + Vec3_x w) (Vec3_y v + Vec3_y w) (Vec3_z v + Vec3_z w)"

definition Vec3_sub :: "Vec3 \<Rightarrow> Vec3 \<Rightarrow> Vec3" where
  "Vec3_sub v w = Vec3_new (Vec3_x v - Vec3_x w) (Vec3_y v - Vec3_y w) (Vec3_z v - Vec3_z w)"

definition Vec3_mult :: "Vec3 \<Rightarrow> real \<Rightarrow> Vec3" where
  "Vec3_mult v s = Vec3_new (Vec3_x v * s) (Vec3_y v * s) (Vec3_z v * s)"

text \<open>Modelled from the spec: \<^verbatim>\<open>Vec3_sqLength\<close> and the length (missing), \<open>squaredLength\<close> and
  \<open>length\<close> of section 4.1.\<close>

definition Vec3_sqLength :: "Vec3 \<Rightarrow> real" where
  "Vec3_sqLength v = Vec3_x v * Vec3_x v + Vec3_y v * Vec3_y v + Vec3_z v * Vec3_z v"

definition Vec3_length :: "Vec3 \<Rightarrow> real" where
  "Vec3_length v = sqrt (Vec3_sqLength v)"

text \<open>Modelled from the spec: \<^verbatim>\<open>Vec3_setLength\<close> (missing), \<open>setLength(target)\<close> of section 4.1:
  it rescales to the given magnitude. For a vector of length zero the rescaling would divide by
  zero; the spec asks for a no-op or an error there. \<^verbatim>\<open>main.c\<close> calls the function as a statement
  and goes on with the vector whatever happened, so the model takes the no-op: a vector of
  length zero is left as it is, and nothing is rescaled.\<close>

definition Vec3_setLength :: "Vec3 \<Rightarrow> real \<Rightarrow> Vec3" where
  "Vec3_setLength v target =
     (if Vec3_length v = 0 then v else Vec3_mult v (target / Vec3_length v))"

text \<open>Modelled from the spec: \<^verbatim>\<open>Vec3_cylindrical\<close> (missing), \<open>fromCylindrical(radius, angle,
  height)\<close> of section 4.1, producing \<open>(radius*cos(angle), height, radius*sin(angle))\<close>.\<close>

definition Vec3_cylindrical :: "real \<Rightarrow> real \<Rightarrow> real \<Rightarrow> Vec3" where
  "Vec3_cylindrical radius angle height =
     Vec3_new (radius * cos angle) height (radius * sin angle)"

subsection \<open>point.h\<close>

text \<open>A screen coordinate: a double that is only stored and compared, and that may be NaN.\<close>

datatype coord = NaN | Fin real

text \<open>The macro \<^verbatim>\<open>NAN\<close> of math.h.\<close>

definition NAN :: coord where
  "NAN = NaN"

text \<open>The operator \<^verbatim>\<open>!=\<close> of C on floating-point operands: a comparison with a NaN operand is
  unordered, and \<^verbatim>\<open>!=\<close> is true of unordered operands.\<close>

fun coord_ne :: "coord \<Rightarrow> coord \<Rightarrow> bool" where
  "coord_ne (Fin r) (Fin s) = (r \<noteq> s)"
| "coord_ne _ _ = True"

text \<open>Modelled from the spec: the type \<^verbatim>\<open>Point\<close> (point.h is missing), \<open>Point2D\<close> of section 3,
  with the fields \<^verbatim>\<open>x\<close> and \<^verbatim>\<open>y\<close> that \<^verbatim>\<open>draw\<close> reads.\<close>

datatype Point = Point_new (Point_x: coord) (Point_y: coord)

subsection \<open>camera.h\<close>

text \<open>Modelled from the spec: the type \<^verbatim>\<open>Camera\<close> (camera.h is missing), section 3. \<^verbatim>\<open>main.c\<close>
  names the fields \<^verbatim>\<open>pos\<close> and \<^verbatim>\<open>up\<close>.\<close>

record Camera =
  pos :: Vec3
  up :: Vec3
  viewportWidth :: int
  viewportHeight :: int
  fovHorizontal :: real
  fovVertical :: real
  lookDirection :: Vec3

subsection \<open>scene.h\<close>

text \<open>Modelled from the spec: the types \<^verbatim>\<open>Edge\<close> and \<^verbatim>\<open>Scene\<close> (scene.h is missing), section 3.
  \<^verbatim>\<open>main.c\<close> names the fields \<^verbatim>\<open>a\<close> and \<^verbatim>\<open>b\<close> of an edge and \<^verbatim>\<open>edges\<close>, \<^verbatim>\<open>edgeCount\<close>,
  \<^verbatim>\<open>projectedPoints\<close> and \<^verbatim>\<open>cam\<close> of a scene; a list carries its own count.\<close>

datatype Edge = Edge_new (Edge_a: int) (Edge_b: int)

record Scene =
  vertices :: "Vec3 list"
  edges :: "Edge list"
  projectedPoints :: "Point list"
  cam :: Camera

subsection \<open>What the missing libraries compute\<close>

text \<open>The functions of the missing files for which the specification gives no formula, and
  the outcome of reading a model file. \<open>loadObj\<close> answers, for a path, the vertex and edge
  lists of the file, or \<^term>\<open>None\<close> when the file is missing or malformed.\<close>

record Extern =
  Camera_project :: "Camera \<Rightarrow> Vec3 \<Rightarrow> Point"
  Camera_directionForwardHorizontal :: "Camera \<Rightarrow> Vec3"
  Camera_directionRight :: "Camera \<Rightarrow> Vec3"
  Camera_turnRight :: "Camera \<Rightarrow> real \<Rightarrow> Camera"
  Camera_tiltDown :: "Camera \<Rightarrow> real \<Rightarrow> Camera"
  Scene_radius :: "Scene \<Rightarrow> real"
  loadObj :: "string \<Rightarrow> (Vec3 list \<times> Edge list) option"
  initialLookDirection :: Vec3
  erasedCamera :: Camera

text \<open>Modelled from the spec: \<^verbatim>\<open>Camera_new\<close> (missing). It stores its six arguments; the look
  direction of a new camera is a fixed axis that the spec does not name.\<close>

definition Camera_new ::
  "Extern \<Rightarrow> Vec3 \<Rightarrow> Vec3 \<Rightarrow> int \<Rightarrow> int \<Rightarrow> real \<Rightarrow> real \<Rightarrow> Camera" where
  "Camera_new ext p u w h fh fv =
     \<lparr>pos = p, up = u, viewportWidth = w, viewportHeight = h,
      fovHorizontal = fh, fovVertical = fv, lookDirection = initialLookDirection ext\<rparr>"

text \<open>Modelled from the spec: \<^verbatim>\<open>Camera_setLookDirection\<close> (missing), section 4.2: it sets
  forward directly to a normalized copy of the direction.\<close>

definition Camera_setLookDirection :: "Camera \<Rightarrow> Vec3 \<Rightarrow> Camera" where
  "Camera_setLookDirection c direction =
     c\<lparr>lookDirection := Vec3_setLength (Vec3_copy direction) 1\<rparr>"

text \<open>Modelled from the spec: \<^verbatim>\<open>Scene_erase\<close> (missing), \<open>erase()\<close> of section 4.3: it clears
  vertices and edges and installs a default camera; projecting right after yields the empty
  sequence.\<close>

definition Scene_erase :: "Extern \<Rightarrow> Scene \<Rightarrow> Scene" where
  "Scene_erase ext s = \<lparr>vertices = [], edges = [], projectedPoints = [], cam = erasedCamera ext\<rparr>"

text \<open>Modelled from the spec: \<^verbatim>\<open>Scene_setCamera\<close> (missing), \<open>setCamera(camera)\<close> of section 4.3:
  it replaces the active camera wholesale.\<close>

definition Scene_setCamera :: "Scene \<Rightarrow> Camera \<Rightarrow> Scene" where
  "Scene_setCamera s c = s\<lparr>cam := c\<rparr>"

text \<open>Modelled from the spec: \<^verbatim>\<open>Scene_free\<close> (missing), \<open>free()\<close> of section 3: it releases the
  vertex, edge and projected-point buffers. A released buffer holds nothing: the empty list.\<close>

definition Scene_free :: "Scene \<Rightarrow> Scene" where
  "Scene_free s = s\<lparr>vertices := [], edges := [], projectedPoints := []\<rparr>"

text \<open>Modelled from the spec: \<^verbatim>\<open>Scene_loadObj\<close> (missing), \<open>loadModel(path)\<close> of section 4.3: on
  success it replaces vertices and edges wholesale, on failure the scene remains as it was
  handed over. Of the projected points the spec says that \<open>project()\<close> computes them, once per
  frame; a load does not touch them.\<close>

definition Scene_loadObj :: "Extern \<Rightarrow> Scene \<Rightarrow> string \<Rightarrow> Scene" where
  "Scene_loadObj ext s fileName =
     (case loadObj ext fileName of
        None \<Rightarrow> s
      | Some (vs, es) \<Rightarrow> s\<lparr>vertices := vs, edges := es\<rparr>)"

text \<open>Modelled from the spec: the contract of the model-loading collaborator (missing), section
  3: the two indices of every edge it returns are valid indices into the vertices it returns.\<close>

definition edgeInRange :: "nat \<Rightarrow> Edge \<Rightarrow> bool" where
  "edgeInRange n e \<longleftrightarrow>
     0 \<le> Edge_a e \<and> Edge_a e < int n \<and> 0 \<le> Edge_b e \<and> Edge_b e < int n"


text \<open>Modelled from the spec: \<^verbatim>\<open>Scene_projectPoints\<close> (missing), \<open>project()\<close> of section 4.3: for
  every vertex it calls the camera's projection and stores the result at the same index.\<close>

definition Scene_projectPoints :: "Extern \<Rightarrow> Scene \<Rightarrow> Scene" where
  "Scene_projectPoints ext s =
     s\<lparr>projectedPoints := map (Camera_project ext (cam s)) (vertices s)\<rparr>"

text \<open>The indices of the edges of a scene are valid indices into its vertices.\<close>

definition edgesValid :: "Scene \<Rightarrow> bool" where
  "edgesValid s \<longleftrightarrow> list_all (edgeInRange (length (vertices s))) (edges s)"

subsection \<open>main.c: the application state\<close>

type_synonym Uint32 = "32 word"

record SoftwareRenderer =
  scene :: Scene
  vel :: Vec3
  moveForce :: real
  movingForward :: bool
  movingBackward :: bool
  movingLeft :: bool
  movingRight :: bool
  movingUp :: bool
  movingDown :: bool
  sceneRadius :: real
  lastInput :: Uint32
  currentTick :: Uint32

subsection \<open>ccanvas.h and SDL\<close>

text \<open>Modelled from the spec: the canvas (ccanvas.h is missing), the rendering collaborator of
  section 6. Of a canvas the model keeps the application data it points to, the two colours,
  the line segments drawn since the last clear, and SDL's relative mouse mode, which the
  handlers switch. A segment is the argument list of \<^verbatim>\<open>CCanvas_preciseLine\<close>.\<close>

datatype Color = rgb nat nat nat

datatype Segment = Segment coord coord coord coord

record CCanvas =
  data :: SoftwareRenderer
  bgColor :: Color
  brushColor :: Color
  drawn :: "Segment list"
  relativeMouseMode :: bool

definition CCanvas_setBgColor :: "CCanvas \<Rightarrow> Color \<Rightarrow> CCanvas" where
  "CCanvas_setBgColor cnv c = cnv\<lparr>bgColor := c\<rparr>"

definition CCanvas_setBrushColor :: "CCanvas \<Rightarrow> Color \<Rightarrow> CCanvas" where
  "CCanvas_setBrushColor cnv c = cnv\<lparr>brushColor := c\<rparr>"

definition CCanvas_clear :: "CCanvas \<Rightarrow> CCanvas" where
  "CCanvas_clear cnv = cnv\<lparr>drawn := []\<rparr>"

definition CCanvas_preciseLine :: "CCanvas \<Rightarrow> coord \<Rightarrow> coord \<Rightarrow> coord \<Rightarrow> coord \<Rightarrow> CCanvas" where
  "CCanvas_preciseLine cnv x1 y1 x2 y2 = cnv\<lparr>drawn := drawn cnv @ [Segment x1 y1 x2 y2]\<rparr>"

text \<open>The key codes that the handlers distinguish, and all the others.\<close>

datatype SDL_Keycode =
  SDLK_w | SDLK_s | SDLK_a | SDLK_d | SDLK_SPACE | SDLK_LSHIFT | SDLK_ESCAPE | SDLK_other int

definition SDL_BUTTON_LEFT :: "8 word" where
  "SDL_BUTTON_LEFT = 1"

text \<open>The sizes that \<^verbatim>\<open>main\<close> passes to \<^verbatim>\<open>CCanvas_create\<close>: a window of 512 by 512 pixels.\<close>

definition windowWidth :: int where
  "windowWidth = 512"

definition windowHeight :: int where
  "windowHeight = 512"

subsection \<open>main.c: the helpers\<close>

definition calculateSceneRadius :: "Extern \<Rightarrow> SoftwareRenderer \<Rightarrow> SoftwareRenderer" where
  "calculateSceneRadius ext app = app\<lparr>sceneRadius := Scene_radius ext (scene app)\<rparr>"

text \<open>\<open>ticks\<close> is what \<^verbatim>\<open>SDL_GetTicks()\<close> returns at this call.\<close>

definition calculateCameraPosAndSpeed :: "Uint32 \<Rightarrow> SoftwareRenderer \<Rightarrow> SoftwareRenderer" where
  "calculateCameraPosAndSpeed ticks app =
     (let r = sceneRadius app;
          angle = real (unat ticks) / 2000;
          newPos = Vec3_cylindrical r angle (r / 1.2);
          newDirection = Vec3_copy newPos;
          newDirection = Vec3_setLength newDirection (- 1);
          c = Camera_setLookDirection (cam (scene app)) newDirection;
          c = c\<lparr>pos := newPos\<rparr>
      in app\<lparr>scene := (scene app)\<lparr>cam := c\<rparr>\<rparr>)"

subsection \<open>main.c: init\<close>

text \<open>Lines 50 to 70 of \<^verbatim>\<open>init\<close>: the tick counters, the colours, the default values and the
  default camera. \<open>ticks\<close> is what \<^verbatim>\<open>SDL_GetTicks()\<close> returns.\<close>

definition initDefaults :: "Extern \<Rightarrow> Uint32 \<Rightarrow> CCanvas \<Rightarrow> CCanvas" where
  "initDefaults ext ticks cnv0 =
     (let app = data cnv0;
          app = app\<lparr>currentTick := ticks\<rparr>;
          app = app\<lparr>lastInput := currentTick app\<rparr>;
          cnv = CCanvas_setBgColor cnv0 (rgb 0 0 0);
          cnv = CCanvas_setBrushColor cnv (rgb 255 255 255);
          app = app\<lparr>vel := Vec3_new 0 0 0\<rparr>;
          app = app\<lparr>moveForce := 1\<rparr>;
          app = app\<lparr>movingBackward := False, movingDown := False, movingForward := False,
                    movingLeft := False, movingRight := False, movingUp := False\<rparr>;
          app = app\<lparr>scene := Scene_erase ext (scene app)\<rparr>;
          app = app\<lparr>scene := Scene_setCamera (scene app)
                   (Camera_new ext (Vec3_new 0 0 0) (Vec3_new 0 1 0) 512 512 (3.14 / 3) (3.14 / 3))\<rparr>
      in cnv\<lparr>data := app\<rparr>)"

text \<open>The whole of \<^verbatim>\<open>init\<close>: the defaults, then the base scene, its radius and the camera
  placement (lines 72 to 75). \<open>ticks2\<close> is the value of \<^verbatim>\<open>SDL_GetTicks()\<close> inside
  \<^verbatim>\<open>calculateCameraPosAndSpeed\<close>. Registering the handlers changes no data.\<close>

definition init :: "Extern \<Rightarrow> Uint32 \<Rightarrow> Uint32 \<Rightarrow> CCanvas \<Rightarrow> CCanvas" where
  "init ext ticks ticks2 cnv0 =
     (let cnv = initDefaults ext ticks cnv0;
          app = data cnv;
          app = app\<lparr>scene := Scene_loadObj ext (scene app) ''base_scene.obj''\<rparr>;
          app = calculateSceneRadius ext app;
          app = calculateCameraPosAndSpeed ticks2 app
      in cnv\<lparr>data := app\<rparr>)"

subsection \<open>main.c: update\<close>

text \<open>Lines 91 to 97: the force of the four horizontal movement flags.\<close>

definition horizontalForce :: "Extern \<Rightarrow> SoftwareRenderer \<Rightarrow> Vec3" where
  "horizontalForce ext app =
     (let force = Vec3_new 0 0 0;
          temp = Camera_directionForwardHorizontal ext (cam (scene app));
          force = (if movingForward app then Vec3_add force temp else force);
          force = (if movingBackward app then Vec3_sub force temp else force);
          temp = Camera_directionRight ext (cam (scene app));
          force = (if movingRight app then Vec3_add force temp else force);
          force = (if movingLeft app then Vec3_sub force temp else force)
      in force)"

text \<open>Lines 91 to 98: the horizontal force, rescaled to length 1 when its squared length is
  not 0.\<close>

definition unitHorizontalForce :: "Extern \<Rightarrow> SoftwareRenderer \<Rightarrow> Vec3" where
  "unitHorizontalForce ext app =
     (let force = horizontalForce ext app
      in if Vec3_sqLength force \<noteq> 0 then Vec3_setLength force 1 else force)"

text \<open>Lines 91 to 105: the vertical flags are added, and the force is scaled with the scene
  radius, the frame time and the move force.\<close>

definition appliedForce :: "Extern \<Rightarrow> real \<Rightarrow> SoftwareRenderer \<Rightarrow> Vec3" where
  "appliedForce ext dt app =
     (let force = unitHorizontalForce ext app;
          force = (if movingUp app then Vec3_add force (up (cam (scene app))) else force);
          force = (if movingDown app then Vec3_sub force (up (cam (scene app))) else force)
      in Vec3_mult force (sceneRadius app * dt * moveForce app * 0.01))"

text \<open>Lines 91 to 112: the force enters the velocity, the velocity is damped, and the camera
  moves by the velocity times \<open>dt / 1000\<close>.\<close>

definition integrateMovement :: "Extern \<Rightarrow> real \<Rightarrow> SoftwareRenderer \<Rightarrow> SoftwareRenderer" where
  "integrateMovement ext dt app0 =
     (let force = appliedForce ext dt app0;
          app = app0\<lparr>vel := Vec3_add (vel app0) force\<rparr>;
          app = app\<lparr>vel := Vec3_mult (vel app) (0.00001 powr (dt / 1000))\<rparr>;
          displacement = Vec3_copy (vel app);
          displacement = Vec3_mult displacement (dt / 1000)
      in app\<lparr>scene := (scene app)\<lparr>cam := (cam (scene app))
            \<lparr>pos := Vec3_add (pos (cam (scene app))) displacement\<rparr>\<rparr>\<rparr>)"

text \<open>Line 114: the test that lets the idle orbit run, in \<^verbatim>\<open>Uint32\<close> arithmetic.\<close>

definition idleOrbitDue :: "SoftwareRenderer \<Rightarrow> bool" where
  "idleOrbitDue app = (currentTick app - lastInput app > 10000)"

text \<open>Lines 89 to 116: everything that \<^verbatim>\<open>update\<close> does before it projects. \<open>ticks\<close> is the
  value of \<^verbatim>\<open>SDL_GetTicks()\<close> at line 89, \<open>ticks2\<close> its value inside
  \<^verbatim>\<open>calculateCameraPosAndSpeed\<close>, when that is called.\<close>

definition updateState ::
  "Extern \<Rightarrow> real \<Rightarrow> Uint32 \<Rightarrow> Uint32 \<Rightarrow> SoftwareRenderer \<Rightarrow> SoftwareRenderer" where
  "updateState ext dt ticks ticks2 app0 =
     (let app = app0\<lparr>currentTick := ticks\<rparr>;
          app = integrateMovement ext dt app
      in if idleOrbitDue app then calculateCameraPosAndSpeed ticks2 app else app)"

text \<open>The whole of \<^verbatim>\<open>update\<close>: the state changes, then the projection of line 118.\<close>

definition update :: "Extern \<Rightarrow> real \<Rightarrow> Uint32 \<Rightarrow> Uint32 \<Rightarrow> CCanvas \<Rightarrow> CCanvas" where
  "update ext dt ticks ticks2 cnv =
     (let app = updateState ext dt ticks ticks2 (data cnv)
      in cnv\<lparr>data := app\<lparr>scene := Scene_projectPoints ext (scene app)\<rparr>\<rparr>)"

subsection \<open>main.c: draw\<close>

text \<open>Reading \<^verbatim>\<open>projectedPoints[i]\<close>: outside the buffer the behaviour of the C program is
  undefined, which is \<^term>\<open>None\<close> here.\<close>

definition pointAt :: "Point list \<Rightarrow> int \<Rightarrow> Point option" where
  "pointAt ps i = (if 0 \<le> i \<and> i < int (length ps) then Some (ps ! nat i) else None)"

text \<open>The body of the loop of lines 128 to 138 for one edge; \<^verbatim>\<open>&&\<close> evaluates its right
  operand only when the left one is true.\<close>

definition drawEdge :: "Point list \<Rightarrow> Edge \<Rightarrow> CCanvas \<Rightarrow> CCanvas option" where
  "drawEdge ps e cnv =
     (case pointAt ps (Edge_a e) of
        None \<Rightarrow> None
      | Some pa \<Rightarrow>
          if \<not> coord_ne (Point_x pa) NAN then Some cnv
          else (case pointAt ps (Edge_b e) of
                  None \<Rightarrow> None
                | Some pb \<Rightarrow>
                    if coord_ne (Point_x pb) NAN \<and> coord_ne (Point_y pa) NAN
                       \<and> coord_ne (Point_y pb) NAN
                    then Some (CCanvas_preciseLine cnv (Point_x pa) (Point_y pa)
                                 (Point_x pb) (Point_y pb))
                    else Some cnv))"

fun drawEdges :: "Point list \<Rightarrow> Edge list \<Rightarrow> CCanvas \<Rightarrow> CCanvas option" where
  "drawEdges ps [] cnv = Some cnv"
| "drawEdges ps (e # es) cnv =
     (case drawEdge ps e cnv of None \<Rightarrow> None | Some cnv' \<Rightarrow> drawEdges ps es cnv')"

definition draw :: "CCanvas \<Rightarrow> CCanvas option" where
  "draw cnv0 =
     (let s = scene (data cnv0);
          cnv = CCanvas_clear cnv0
      in drawEdges (projectedPoints s) (edges s) cnv)"

subsection \<open>main.c: the event handlers\<close>

definition onMouseButtonDown :: "8 word \<Rightarrow> 32 word \<Rightarrow> 32 word \<Rightarrow> CCanvas \<Rightarrow> CCanvas" where
  "onMouseButtonDown button mx my cnv =
     (let app = data cnv;
          app = app\<lparr>lastInput := currentTick app\<rparr>;
          cnv = cnv\<lparr>data := app\<rparr>
      in if button = SDL_BUTTON_LEFT
         then (if \<not> relativeMouseMode cnv then cnv\<lparr>relativeMouseMode := True\<rparr> else cnv)
         else cnv)"

definition onMouseMove :: "Extern \<Rightarrow> 32 word \<Rightarrow> 32 word \<Rightarrow> CCanvas \<Rightarrow> CCanvas" where
  "onMouseMove ext dx dy cnv =
     (let app = data cnv;
          app = app\<lparr>lastInput := currentTick app\<rparr>;
          c = Camera_turnRight ext (cam (scene app)) (real_of_int (sint dx) / 1000);
          c = Camera_tiltDown ext c (real_of_int (sint dy) / 1000)
      in cnv\<lparr>data := app\<lparr>scene := (scene app)\<lparr>cam := c\<rparr>\<rparr>\<rparr>)"

definition onFileDrop :: "Extern \<Rightarrow> Uint32 \<Rightarrow> string \<Rightarrow> CCanvas \<Rightarrow> CCanvas" where
  "onFileDrop ext ticks2 fileName cnv =
     (let app = data cnv;
          app = app\<lparr>scene := Scene_free (scene app)\<rparr>;
          app = app\<lparr>scene := Scene_loadObj ext (scene app) fileName\<rparr>;
          app = calculateSceneRadius ext app;
          app = calculateCameraPosAndSpeed ticks2 app
      in cnv\<lparr>data := app\<rparr>)"

definition onKeyDown :: "SDL_Keycode \<Rightarrow> CCanvas \<Rightarrow> CCanvas" where
  "onKeyDown code cnv =
     (let app = data cnv;
          app = app\<lparr>lastInput := currentTick app\<rparr>
      in case code of
           SDLK_w \<Rightarrow> cnv\<lparr>data := app\<lparr>movingForward := True\<rparr>\<rparr>
         | SDLK_s \<Rightarrow> cnv\<lparr>data := app\<lparr>movingBackward := True\<rparr>\<rparr>
         | SDLK_a \<Rightarrow> cnv\<lparr>data := app\<lparr>movingLeft := True\<rparr>\<rparr>
         | SDLK_d \<Rightarrow> cnv\<lparr>data := app\<lparr>movingRight := True\<rparr>\<rparr>
         | SDLK_SPACE \<Rightarrow> cnv\<lparr>data := app\<lparr>movingUp := True\<rparr>\<rparr>
         | SDLK_LSHIFT \<Rightarrow> cnv\<lparr>data := app\<lparr>movingDown := True\<rparr>\<rparr>
         | SDLK_ESCAPE \<Rightarrow> cnv\<lparr>data := app, relativeMouseMode := False\<rparr>
         | SDLK_other k \<Rightarrow> cnv\<lparr>data := app\<rparr>)"

definition onKeyUp :: "SDL_Keycode \<Rightarrow> CCanvas \<Rightarrow> CCanvas" where
  "onKeyUp code cnv =
     (let app = data cnv;
          app = app\<lparr>lastInput := currentTick app\<rparr>
      in case code of
           SDLK_ESCAPE \<Rightarrow> cnv\<lparr>data := app, relativeMouseMode := False\<rparr>
         | SDLK_w \<Rightarrow> cnv\<lparr>data := app\<lparr>movingForward := False\<rparr>\<rparr>
         | SDLK_s \<Rightarrow> cnv\<lparr>data := app\<lparr>movingBackward := False\<rparr>\<rparr>
         | SDLK_a \<Rightarrow> cnv\<lparr>data := app\<lparr>movingLeft := False\<rparr>\<rparr>
         | SDLK_d \<Rightarrow> cnv\<lparr>data := app\<lparr>movingRight := False\<rparr>\<rparr>
         | SDLK_SPACE \<Rightarrow> cnv\<lparr>data := app\<lparr>movingUp := False\<rparr>\<rparr>
         | SDLK_LSHIFT \<Rightarrow> cnv\<lparr>data := app\<lparr>movingDown := False\<rparr>\<rparr>
         | SDLK_other k \<Rightarrow> cnv\<lparr>data := app\<rparr>)"

subsection \<open>The states of a run\<close>



subsection \<open>Sample values\<close>

text \<open>A camera, a scene of two vertices and one edge, an application state and a canvas, and
  one choice of the functions of the missing libraries, for evaluating the definitions. The
  sample loader knows the base scene and no other file.\<close>

definition sampleCamera :: Camera where
  "sampleCamera =
     \<lparr>pos = Vec3_new 0 0 (- 5), up = Vec3_new 0 1 0, viewportWidth = 512, viewportHeight = 512,
      fovHorizontal = 1, fovVertical = 1, lookDirection = Vec3_new 0 0 1\<rparr>"

definition sampleExtern :: Extern where
  "sampleExtern =
     \<lparr>Camera_project = (\<lambda>c v. Point_new (Fin (Vec3_x v - Vec3_x (pos c)))
                                        (Fin (Vec3_y v - Vec3_y (pos c)))),
      Camera_directionForwardHorizontal = (\<lambda>c. Vec3_new 0 0 1),
      Camera_directionRight = (\<lambda>c. Vec3_new 1 0 0),
      Camera_turnRight = (\<lambda>c angle. c),
      Camera_tiltDown = (\<lambda>c angle. c),
      Scene_radius = (\<lambda>s. 1),
      loadObj = (\<lambda>fileName. if fileName = ''base_scene.obj''
                   then Some ([Vec3_new 0 0 0, Vec3_new 1 0 0, Vec3_new 0 2 0],
                              [Edge_new 0 1, Edge_new 1 2])
                   else None),
      initialLookDirection = Vec3_new 0 0 1,
      erasedCamera = sampleCamera\<rparr>"

definition sampleScene :: Scene where
  "sampleScene =
     \<lparr>vertices = [Vec3_new 0 0 0, Vec3_new 1 0 0], edges = [Edge_new 0 1],
      projectedPoints = [Point_new (Fin 0) (Fin 0), Point_new (Fin 1) (Fin 0)],
      cam = sampleCamera\<rparr>"

definition sampleApp :: SoftwareRenderer where
  "sampleApp =
     \<lparr>scene = sampleScene, vel = Vec3_new 0 0 0, moveForce = 1,
      movingForward = True, movingBackward = False, movingLeft = False, movingRight = True,
      movingUp = False, movingDown = False, sceneRadius = 3, lastInput = 100,
      currentTick = 100\<rparr>"

definition sampleCanvas :: CCanvas where
  "sampleCanvas =
     \<lparr>data = sampleApp, bgColor = rgb 0 0 0, brushColor = rgb 255 255 255, drawn = [],
      relativeMouseMode = False\<rparr>"

text \<open>The sample application with a scene of radius 0, and its canvas.\<close>

definition flatApp :: SoftwareRenderer where
  "flatApp = sampleApp\<lparr>sceneRadius := 0\<rparr>"

definition flatCanvas :: CCanvas where
  "flatCanvas = sampleCanvas\<lparr>data := flatApp\<rparr>"

text \<open>The sample scene after a projection that marked its first vertex as invalid.\<close>

definition markedCanvas :: CCanvas where
  "markedCanvas =
     sampleCanvas\<lparr>data := sampleApp\<lparr>scene := sampleScene
       \<lparr>projectedPoints := [Point_new NAN NAN, Point_new (Fin 1) (Fin 0)]\<rparr>\<rparr>\<rparr>"

section \<open>Properties of the operations\<close>

subsection \<open>Vectors\<close>

lemma Vec3_sqLength_nonneg: "0 \<le> Vec3_sqLength v"
  by (simp add: Vec3_sqLength_def)

lemma Vec3_sqLength_zero_iff: "Vec3_sqLength v = 0 \<longleftrightarrow> v = Vec3_new 0 0 0"
proof (cases v)
  case (Vec3_new a b c)
  have "a * a + b * b + c * c = 0 \<longleftrightarrow> a = 0 \<and> b = 0 \<and> c = 0"
    by (metis (no_types) add_nonneg_eq_0_iff add_nonneg_nonneg mult_eq_0_iff zero_le_square)
  with Vec3_new show ?thesis
    by (simp add: Vec3_sqLength_def)
qed

lemma Vec3_length_zero_iff: "Vec3_length v = 0 \<longleftrightarrow> Vec3_sqLength v = 0"
  by (simp add: Vec3_length_def)

lemma Vec3_sqLength_mult: "Vec3_sqLength (Vec3_mult v s) = s * s * Vec3_sqLength v"
  by (simp add: Vec3_sqLength_def Vec3_mult_def algebra_simps)

lemma Vec3_length_mult: "Vec3_length (Vec3_mult v s) = \<bar>s\<bar> * Vec3_length v"
proof -
  have "sqrt (s * s * Vec3_sqLength v) = sqrt (s * s) * sqrt (Vec3_sqLength v)"
    by (rule real_sqrt_mult)
  then show ?thesis
    by (simp add: Vec3_length_def Vec3_sqLength_mult)
qed

lemma Vec3_length_nonneg: "0 \<le> Vec3_length v"
  by (simp add: Vec3_length_def Vec3_sqLength_nonneg)

lemma Vec3_setLength_nonzero:
  assumes "Vec3_length v \<noteq> 0"
  shows "Vec3_setLength v t = Vec3_mult v (t / Vec3_length v)"
  using assms by (simp add: Vec3_setLength_def)

lemma Vec3_setLength_zero: "Vec3_setLength (Vec3_new 0 0 0) t = Vec3_new 0 0 0"
  by (simp add: Vec3_setLength_def Vec3_length_def Vec3_sqLength_def)

lemma Vec3_setLength_length:
  assumes "Vec3_length v \<noteq> 0"
  shows "Vec3_length (Vec3_setLength v t) = \<bar>t\<bar>"
proof -
  have "0 < Vec3_length v"
    using assms Vec3_length_nonneg [of v] by linarith
  then show ?thesis
    by (simp add: Vec3_setLength_nonzero Vec3_length_mult)
qed

lemma Vec3_setLength_unit:
  assumes "Vec3_length d = 1"
  shows "Vec3_setLength d 1 = d"
  using assms by (cases d) (simp add: Vec3_setLength_def Vec3_mult_def)

lemma Vec3_sqLength_cylindrical: "Vec3_sqLength (Vec3_cylindrical r a h) = r * r + h * h"
proof -
  have "r * cos a * (r * cos a) + r * sin a * (r * sin a) = r * r * (cos a * cos a + sin a * sin a)"
    by (simp only: algebra_simps)
  also have "\<dots> = r * r"
    by (simp only: sin_cos_squared_add3 mult_1_right)
  finally show ?thesis
    by (simp add: Vec3_sqLength_def Vec3_cylindrical_def)
qed

lemma Vec3_length_cylindrical_nonzero:
  assumes "r \<noteq> 0"
  shows "Vec3_length (Vec3_cylindrical r a h) \<noteq> 0"
proof -
  have "0 < r\<^sup>2" using assms by simp
  then have "0 < r * r" by (simp only: power2_eq_square)
  moreover have "0 \<le> h * h" by simp
  ultimately have "r * r + h * h \<noteq> 0" by linarith
  then show ?thesis
    by (simp only: Vec3_length_zero_iff Vec3_sqLength_cylindrical not_False_eq_True)
qed

lemma Vec3_mult_mult: "Vec3_mult (Vec3_mult v s) t = Vec3_mult v (s * t)"
  by (simp add: Vec3_mult_def algebra_simps)

lemma Vec3_cylindrical_scaled:
  "Vec3_cylindrical (k * r) a (k * r / 1.2) = Vec3_mult (Vec3_cylindrical r a (r / 1.2)) k"
  by (simp add: Vec3_cylindrical_def Vec3_mult_def algebra_simps)

lemma Vec3_sub_origin: "Vec3_sub (Vec3_new 0 0 0) p = Vec3_mult p (- 1)"
  by (simp add: Vec3_sub_def Vec3_mult_def)


lemma Vec3_cylindrical_zero: "Vec3_cylindrical 0 a (0 / 1.2) = Vec3_new 0 0 0"
  by (simp add: Vec3_cylindrical_def)

subsection \<open>Placing the camera\<close>

lemma calculateCameraPosAndSpeed_frame:
  "calculateCameraPosAndSpeed ticks app =
     app\<lparr>scene := (scene app)\<lparr>cam := (cam (scene app))
       \<lparr>lookDirection := Vec3_setLength (Vec3_setLength
            (Vec3_cylindrical (sceneRadius app) (real (unat ticks) / 2000) (sceneRadius app / 1.2))
            (- 1)) 1,
        pos := Vec3_cylindrical (sceneRadius app) (real (unat ticks) / 2000)
            (sceneRadius app / 1.2)\<rparr>\<rparr>\<rparr>"
  by (simp add: calculateCameraPosAndSpeed_def Let_def Camera_setLookDirection_def Vec3_copy_def)

lemma calculateCameraPosAndSpeed_pos:
  "pos (cam (scene (calculateCameraPosAndSpeed ticks app))) =
     Vec3_cylindrical (sceneRadius app) (real (unat ticks) / 2000) (sceneRadius app / 1.2)"
  by (simp add: calculateCameraPosAndSpeed_frame)

lemma calculateCameraPosAndSpeed_look:
  fixes app :: SoftwareRenderer and ticks :: Uint32
  assumes "sceneRadius app \<noteq> 0"
  defines "newPos \<equiv>
    Vec3_cylindrical (sceneRadius app) (real (unat (ticks :: Uint32)) / 2000) (sceneRadius app / 1.2)"
  shows "lookDirection (cam (scene (calculateCameraPosAndSpeed ticks app))) =
           Vec3_setLength newPos (- 1)"
    and "Vec3_length (lookDirection (cam (scene (calculateCameraPosAndSpeed ticks app)))) = 1"
proof -
  have nz: "Vec3_length newPos \<noteq> 0"
    unfolding newPos_def using assms(1) by (rule Vec3_length_cylindrical_nonzero)
  have len: "Vec3_length (Vec3_setLength newPos (- 1)) = 1"
    using Vec3_setLength_length [OF nz, of "- 1"] by simp
  have "lookDirection (cam (scene (calculateCameraPosAndSpeed ticks app))) =
      Vec3_setLength (Vec3_setLength newPos (- 1)) 1"
    by (simp add: calculateCameraPosAndSpeed_frame newPos_def)
  also have "\<dots> = Vec3_setLength newPos (- 1)"
    using len by (rule Vec3_setLength_unit)
  finally show "lookDirection (cam (scene (calculateCameraPosAndSpeed ticks app))) =
           Vec3_setLength newPos (- 1)" .
  then show "Vec3_length (lookDirection (cam (scene (calculateCameraPosAndSpeed ticks app)))) = 1"
    using len by simp
qed

lemma calculateCameraPosAndSpeed_flat:
  assumes "sceneRadius app = 0"
  shows "pos (cam (scene (calculateCameraPosAndSpeed ticks app))) = Vec3_new 0 0 0"
    and "lookDirection (cam (scene (calculateCameraPosAndSpeed ticks app))) = Vec3_new 0 0 0"
  using assms
  by (simp_all add: calculateCameraPosAndSpeed_frame Vec3_cylindrical_def Vec3_setLength_zero)

lemma calculateCameraPosAndSpeed_geometry:
  "vertices (scene (calculateCameraPosAndSpeed ticks app)) = vertices (scene app)"
  "edges (scene (calculateCameraPosAndSpeed ticks app)) = edges (scene app)"
  "projectedPoints (scene (calculateCameraPosAndSpeed ticks app)) = projectedPoints (scene app)"
  by (simp_all add: calculateCameraPosAndSpeed_frame)

subsection \<open>Movement\<close>

lemma horizontalForce_sceneRadius [simp]:
  "horizontalForce ext (app\<lparr>sceneRadius := q\<rparr>) = horizontalForce ext app"
  by (simp add: horizontalForce_def)

lemma unitHorizontalForce_sceneRadius [simp]:
  "unitHorizontalForce ext (app\<lparr>sceneRadius := q\<rparr>) = unitHorizontalForce ext app"
  by (simp add: unitHorizontalForce_def)

lemma horizontalForce_currentTick [simp]:
  "horizontalForce ext (app\<lparr>currentTick := q\<rparr>) = horizontalForce ext app"
  by (simp add: horizontalForce_def)

lemma unitHorizontalForce_currentTick [simp]:
  "unitHorizontalForce ext (app\<lparr>currentTick := q\<rparr>) = unitHorizontalForce ext app"
  by (simp add: unitHorizontalForce_def)

lemma appliedForce_currentTick [simp]:
  "appliedForce ext dt (app\<lparr>currentTick := q\<rparr>) = appliedForce ext dt app"
  by (simp add: appliedForce_def Let_def)

lemma unitHorizontalForce_cases:
  "unitHorizontalForce ext app =
     (if horizontalForce ext app = Vec3_new 0 0 0 then Vec3_new 0 0 0
      else Vec3_mult (horizontalForce ext app) (1 / Vec3_length (horizontalForce ext app)))"
  by (simp add: unitHorizontalForce_def Let_def Vec3_setLength_def Vec3_length_zero_iff
      Vec3_sqLength_zero_iff)


lemma integrateMovement_frame:
  "integrateMovement ext dt app =
     app\<lparr>vel := Vec3_mult (Vec3_add (vel app) (appliedForce ext dt app))
               (0.00001 powr (dt / 1000)),
         scene := (scene app)\<lparr>cam := (cam (scene app))
           \<lparr>pos := Vec3_add (pos (cam (scene app)))
              (Vec3_mult (Vec3_mult (Vec3_add (vel app) (appliedForce ext dt app))
                 (0.00001 powr (dt / 1000))) (dt / 1000))\<rparr>\<rparr>\<rparr>"
  by (simp add: integrateMovement_def Let_def Vec3_copy_def)

lemma idleOrbitDue_iff: "idleOrbitDue app \<longleftrightarrow> 10000 < unat (currentTick app - lastInput app)"
  by (simp add: idleOrbitDue_def word_less_nat_alt)

lemma idleOrbitDue_integrateMovement:
  "idleOrbitDue (integrateMovement ext dt (app\<lparr>currentTick := ticks\<rparr>)) \<longleftrightarrow>
     10000 < unat (ticks - lastInput app)"
  by (simp add: idleOrbitDue_iff integrateMovement_frame)

lemma appliedForce_scaled:
  "appliedForce ext dt (app\<lparr>sceneRadius := k * sceneRadius app\<rparr>) =
     Vec3_mult (appliedForce ext dt app) k"
  by (simp add: appliedForce_def Let_def Vec3_mult_mult algebra_simps)

lemma updateState_cases:
  "updateState ext dt ticks ticks2 app =
     (if 10000 < unat (ticks - lastInput app)
      then calculateCameraPosAndSpeed ticks2 (integrateMovement ext dt (app\<lparr>currentTick := ticks\<rparr>))
      else integrateMovement ext dt (app\<lparr>currentTick := ticks\<rparr>))"
  by (simp add: updateState_def Let_def idleOrbitDue_integrateMovement)

lemma updateState_no_orbit:
  assumes "\<not> 10000 < unat (ticks - lastInput app)"
  shows "updateState ext dt ticks ticks2 app = integrateMovement ext dt (app\<lparr>currentTick := ticks\<rparr>)"
  using assms by (simp add: updateState_cases)

lemma updateState_geometry:
  "vertices (scene (updateState ext dt ticks ticks2 app)) = vertices (scene app)"
  "edges (scene (updateState ext dt ticks ticks2 app)) = edges (scene app)"
  by (simp_all add: updateState_cases calculateCameraPosAndSpeed_geometry integrateMovement_frame)

lemma handlers_record_tick:
  "lastInput (data (onMouseButtonDown button mx my cnv)) = currentTick (data cnv)"
  "lastInput (data (onMouseMove ext dx dy cnv)) = currentTick (data cnv)"
  "lastInput (data (onKeyDown code cnv)) = currentTick (data cnv)"
  "lastInput (data (onKeyUp code cnv)) = currentTick (data cnv)"
  by (simp_all add: onMouseButtonDown_def onMouseMove_def onKeyDown_def onKeyUp_def Let_def
      split: SDL_Keycode.splits)

lemma handlers_keep_tick:
  "currentTick (data (onMouseButtonDown button mx my cnv)) = currentTick (data cnv)"
  "currentTick (data (onMouseMove ext dx dy cnv)) = currentTick (data cnv)"
  "currentTick (data (onKeyDown code cnv)) = currentTick (data cnv)"
  "currentTick (data (onKeyUp code cnv)) = currentTick (data cnv)"
  by (simp_all add: onMouseButtonDown_def onMouseMove_def onKeyDown_def onKeyUp_def Let_def
      split: SDL_Keycode.splits)

lemma update_no_orbit_eq:
  assumes "\<not> 10000 < unat (ticks - lastInput (data cnv))"
  shows "update ext dt ticks ticks2 cnv =
     cnv\<lparr>data := (integrateMovement ext dt ((data cnv)\<lparr>currentTick := ticks\<rparr>))
       \<lparr>scene := Scene_projectPoints ext
          (scene (integrateMovement ext dt ((data cnv)\<lparr>currentTick := ticks\<rparr>)))\<rparr>\<rparr>"
  using assms by (simp add: update_def Let_def updateState_no_orbit)




subsection \<open>Drawing\<close>

lemma drawEdge_draws:
  assumes "pointAt ps (Edge_a e) = Some pa" and "pointAt ps (Edge_b e) = Some pb"
  shows "drawEdge ps e cnv =
           Some (CCanvas_preciseLine cnv (Point_x pa) (Point_y pa) (Point_x pb) (Point_y pb))"
  using assms by (simp add: drawEdge_def NAN_def)

lemma drawEdge_data: "drawEdge ps e cnv = Some cnv' \<Longrightarrow> data cnv' = data cnv"
  by (auto simp: drawEdge_def CCanvas_preciseLine_def split: option.splits if_splits)

lemma drawEdges_data: "drawEdges ps es cnv = Some cnv' \<Longrightarrow> data cnv' = data cnv"
proof (induction es arbitrary: cnv)
  case Nil
  then show ?case by simp
next
  case (Cons e es)
  then show ?case
    by (auto split: option.splits dest: drawEdge_data)
qed

lemma draw_data: "draw cnv = Some cnv' \<Longrightarrow> data cnv' = data cnv"
  by (auto simp: draw_def CCanvas_clear_def Let_def dest: drawEdges_data)

lemma drawEdge_drawn:
  assumes "drawn c1 = drawn c2"
  shows "map_option drawn (drawEdge ps e c1) = map_option drawn (drawEdge ps e c2)"
  using assms by (simp add: drawEdge_def CCanvas_preciseLine_def split: option.splits)

lemma drawEdges_drawn:
  assumes "drawn c1 = drawn c2"
  shows "map_option drawn (drawEdges ps es c1) = map_option drawn (drawEdges ps es c2)"
  using assms
proof (induction es arbitrary: c1 c2)
  case Nil
  then show ?case by simp
next
  case (Cons e es)
  note step = drawEdge_drawn [OF Cons.prems, of ps e]
  show ?case
  proof (cases "drawEdge ps e c1")
    case None
    with step have "drawEdge ps e c2 = None"
      by simp
    with None show ?thesis
      by simp
  next
    case (Some d1)
    with step obtain d2 where d2: "drawEdge ps e c2 = Some d2" and eq: "drawn d1 = drawn d2"
      by (cases "drawEdge ps e c2") auto
    from Cons.IH [OF eq] Some d2 show ?thesis
      by simp
  qed
qed

lemma draw_reads_points_and_edges:
  assumes "projectedPoints (scene (data c1)) = projectedPoints (scene (data c2))"
    and "edges (scene (data c1)) = edges (scene (data c2))"
  shows "map_option drawn (draw c1) = map_option drawn (draw c2)"
  using assms drawEdges_drawn [of "CCanvas_clear c1" "CCanvas_clear c2"]
  by (simp add: draw_def Let_def CCanvas_clear_def)

lemma drawEdge_in_range:
  assumes "0 \<le> Edge_a e" "Edge_a e < int (length ps)" "0 \<le> Edge_b e" "Edge_b e < int (length ps)"
  shows "\<exists>cnv'. drawEdge ps e cnv = Some cnv'"
  using assms by (simp add: drawEdge_def pointAt_def)

lemma drawEdges_in_range:
  assumes "\<forall>e \<in> set es. 0 \<le> Edge_a e \<and> Edge_a e < int (length ps)
                     \<and> 0 \<le> Edge_b e \<and> Edge_b e < int (length ps)"
  shows "\<exists>cnv'. drawEdges ps es cnv = Some cnv'"
  using assms
proof (induction es arbitrary: cnv)
  case Nil
  then show ?case by simp
next
  case (Cons e es)
  then obtain c1 where "drawEdge ps e cnv = Some c1"
    using drawEdge_in_range [of e ps cnv] by auto
  moreover from Cons obtain c2 where "drawEdges ps es c1 = Some c2"
    by fastforce
  ultimately show ?case
    by simp
qed

subsection \<open>Loading\<close>

lemma initDefaults_camera:
  "cam (scene (data (initDefaults ext ticks cnv))) =
     Camera_new ext (Vec3_new 0 0 0) (Vec3_new 0 1 0) 512 512 (3.14 / 3) (3.14 / 3)"
  by (simp add: initDefaults_def Let_def Scene_setCamera_def CCanvas_setBgColor_def
      CCanvas_setBrushColor_def)

lemma initDefaults_geometry:
  "vertices (scene (data (initDefaults ext ticks cnv))) = []"
  "edges (scene (data (initDefaults ext ticks cnv))) = []"
  "projectedPoints (scene (data (initDefaults ext ticks cnv))) = []"
  by (simp_all add: initDefaults_def Let_def Scene_setCamera_def Scene_erase_def
      CCanvas_setBgColor_def CCanvas_setBrushColor_def)

lemma Scene_loadObj_cam: "cam (Scene_loadObj ext s fileName) = cam s"
  by (simp add: Scene_loadObj_def split: option.splits)

lemma Scene_loadObj_projectedPoints:
  "projectedPoints (Scene_loadObj ext s fileName) = projectedPoints s"
  by (simp add: Scene_loadObj_def split: option.splits)

lemma init_data:
  "data (init ext ticks ticks2 cnv) =
     calculateCameraPosAndSpeed ticks2 (calculateSceneRadius ext ((data (initDefaults ext ticks cnv))
       \<lparr>scene := Scene_loadObj ext (scene (data (initDefaults ext ticks cnv))) ''base_scene.obj''\<rparr>))"
  by (simp add: init_def Let_def)

lemma init_camera:
  "cam (scene (data (init ext ticks ticks2 cnv))) =
     (Camera_new ext (Vec3_new 0 0 0) (Vec3_new 0 1 0) 512 512 (3.14 / 3) (3.14 / 3))
       \<lparr>lookDirection := lookDirection (cam (scene (data (init ext ticks ticks2 cnv)))),
        pos := Vec3_cylindrical (sceneRadius (data (init ext ticks ticks2 cnv)))
                 (real (unat ticks2) / 2000) (sceneRadius (data (init ext ticks ticks2 cnv)) / 1.2)\<rparr>"
  by (simp add: init_data calculateCameraPosAndSpeed_frame calculateSceneRadius_def
      Scene_loadObj_cam initDefaults_camera)


lemma onFileDrop_geometry:
  "vertices (scene (data (onFileDrop ext ticks2 fileName cnv))) =
     vertices (Scene_loadObj ext (Scene_free (scene (data cnv))) fileName)"
  "edges (scene (data (onFileDrop ext ticks2 fileName cnv))) =
     edges (Scene_loadObj ext (Scene_free (scene (data cnv))) fileName)"
  "projectedPoints (scene (data (onFileDrop ext ticks2 fileName cnv))) = []"
  by (simp_all add: onFileDrop_def Let_def calculateCameraPosAndSpeed_geometry
      calculateSceneRadius_def Scene_loadObj_projectedPoints Scene_free_def)

subsection \<open>Valid edges\<close>



lemma edgesValid_cong:
  assumes "vertices s = vertices s'" and "edges s = edges s'"
  shows "edgesValid s \<longleftrightarrow> edgesValid s'"
  using assms by (simp add: edgesValid_def)

lemma update_geometry:
  "vertices (scene (data (update ext dt ticks ticks2 cnv))) = vertices (scene (data cnv))"
  "edges (scene (data (update ext dt ticks ticks2 cnv))) = edges (scene (data cnv))"
  "projectedPoints (scene (data (update ext dt ticks ticks2 cnv))) =
     map (Camera_project ext (cam (scene (data (update ext dt ticks ticks2 cnv)))))
       (vertices (scene (data (update ext dt ticks ticks2 cnv))))"
  by (simp_all add: update_def Let_def Scene_projectPoints_def updateState_geometry)





section \<open>The claims\<close>

subsection \<open>C1\<close>

text \<open>C1, as stated, fails: the sample scene holds two vertices and one edge, the load of the
  dropped file fails, and after the call the scene holds no vertex and no edge.\<close>

theorem failed_file_drop_loses_geometry:
  "loadObj sampleExtern ''missing.obj'' = None
   \<and> vertices (scene (data sampleCanvas)) = [Vec3_new 0 0 0, Vec3_new 1 0 0]
   \<and> edges (scene (data sampleCanvas)) = [Edge_new 0 1]
   \<and> vertices (scene (data (onFileDrop sampleExtern 0 ''missing.obj'' sampleCanvas))) = []
   \<and> edges (scene (data (onFileDrop sampleExtern 0 ''missing.obj'' sampleCanvas))) = []
   \<and> vertices (scene (data (onFileDrop sampleExtern 0 ''missing.obj'' sampleCanvas)))
       \<noteq> vertices (scene (data sampleCanvas))
   \<and> edges (scene (data (onFileDrop sampleExtern 0 ''missing.obj'' sampleCanvas)))
       \<noteq> edges (scene (data sampleCanvas))"
proof -
  have h: "loadObj sampleExtern ''missing.obj'' = None"
    by (simp add: sampleExtern_def)
  then have "vertices (scene (data (onFileDrop sampleExtern 0 ''missing.obj'' sampleCanvas))) = []
      \<and> edges (scene (data (onFileDrop sampleExtern 0 ''missing.obj'' sampleCanvas))) = []"
    by (simp add: onFileDrop_geometry Scene_loadObj_def Scene_free_def)
  with h show ?thesis
    by (simp add: sampleCanvas_def sampleApp_def sampleScene_def)
qed

text \<open>C1, as amended. For every call of the file-drop handler, when the load fails the scene
  does not keep its last geometry: \<^verbatim>\<open>onFileDrop\<close> releases the buffers before it attempts the
  load, and after the call the vertex and edge buffers are the released, empty ones.\<close>

theorem failed_file_drop_leaves_released_buffers:
  assumes "loadObj ext fileName = None"
  shows "vertices (scene (data (onFileDrop ext ticks2 fileName cnv))) =
           vertices (Scene_free (scene (data cnv)))
       \<and> edges (scene (data (onFileDrop ext ticks2 fileName cnv))) =
           edges (Scene_free (scene (data cnv)))
       \<and> vertices (scene (data (onFileDrop ext ticks2 fileName cnv))) = []
       \<and> edges (scene (data (onFileDrop ext ticks2 fileName cnv))) = []"
  using assms by (simp add: onFileDrop_geometry Scene_loadObj_def Scene_free_def)

text \<open>The amended statement on the sample canvas, whose loader does not know the dropped file,
  and on the canvas of a scene of radius 0.\<close>

theorem failed_file_drop_leaves_released_buffers_witness:
  "loadObj sampleExtern ''missing.obj'' = None
   \<and> vertices (scene (data (onFileDrop sampleExtern 0 ''missing.obj'' sampleCanvas))) = []
   \<and> edges (scene (data (onFileDrop sampleExtern 0 ''missing.obj'' sampleCanvas))) = []
   \<and> vertices (scene (data (onFileDrop (sampleExtern\<lparr>Scene_radius := (\<lambda>s. 0)\<rparr>) 0 ''missing.obj''
        flatCanvas))) = []"
proof -
  have h: "loadObj sampleExtern ''missing.obj'' = None"
    by (simp add: sampleExtern_def)
  have h0: "loadObj (sampleExtern\<lparr>Scene_radius := (\<lambda>s. 0)\<rparr>) ''missing.obj'' = None"
    by (simp add: sampleExtern_def)
  from failed_file_drop_leaves_released_buffers [OF h, of 0 sampleCanvas]
    failed_file_drop_leaves_released_buffers [OF h0, of 0 flatCanvas] h
  show ?thesis
    by blast
qed

subsection \<open>C2\<close>

text \<open>C2. The claim: for every edge \<open>(a, b)\<close> the draw routine emits the segment between
  \<open>projectedPoints[a]\<close> and \<open>projectedPoints[b]\<close> if and only if neither endpoint carries the
  invalid-projection marker. The code tests the coordinates with \<^verbatim>\<open>!= NAN\<close>, which is true of
  every value, NaN included. Evaluated on the sample scene whose first projected point is the
  marker \<open>(NaN, NaN)\<close>, \<^verbatim>\<open>draw\<close> emits the segment of the edge \<open>(0, 1)\<close> all the same, with the
  NaN coordinates as its first endpoint.\<close>

theorem draw_emits_edge_with_marked_endpoint:
  "map_option drawn (draw markedCanvas) = Some [Segment NaN NaN (Fin 1) (Fin 0)]"
  by (simp add: draw_def markedCanvas_def sampleCanvas_def sampleApp_def sampleScene_def
      CCanvas_clear_def drawEdge_def pointAt_def NAN_def CCanvas_preciseLine_def)

subsection \<open>C3\<close>

text \<open>C3. The idle-orbit repositioning runs in an update step if and only if more than 10000
  ticks have elapsed since the last input: each of the four handlers (mouse button, mouse move,
  key down, key up) stores the current tick as the last input time and leaves the current tick
  alone; the test of line 114, made in \<^verbatim>\<open>Uint32\<close> arithmetic on the tick read at line 89, holds
  exactly when the difference to the last input time exceeds 10000, and then, and only then,
  \<^verbatim>\<open>calculateCameraPosAndSpeed\<close> is called; an update within 10000 ticks of a handler does the
  movement integration only. When the counter has not wrapped around since the last input, the
  difference is the number of ticks elapsed.\<close>

theorem idle_orbit_runs_after_10000_ticks:
  "(\<forall>h \<in> {onMouseButtonDown button mx my, onMouseMove ext dx dy, onKeyDown code, onKeyUp code}.
       lastInput (data (h cnv)) = currentTick (data cnv)
       \<and> currentTick (data (h cnv)) = currentTick (data cnv)
       \<and> (\<not> 10000 < unat (ticks - currentTick (data cnv)) \<longrightarrow>
            updateState ext dt ticks ticks2 (data (h cnv)) =
              integrateMovement ext dt ((data (h cnv))\<lparr>currentTick := ticks\<rparr>)))
   \<and> (idleOrbitDue (integrateMovement ext dt (app\<lparr>currentTick := ticks\<rparr>))
        \<longleftrightarrow> 10000 < unat (ticks - lastInput app))
   \<and> updateState ext dt ticks ticks2 app =
        (if 10000 < unat (ticks - lastInput app)
         then calculateCameraPosAndSpeed ticks2
                (integrateMovement ext dt (app\<lparr>currentTick := ticks\<rparr>))
         else integrateMovement ext dt (app\<lparr>currentTick := ticks\<rparr>))
   \<and> (lastInput app \<le> ticks \<longrightarrow>
         unat (ticks - lastInput app) = unat ticks - unat (lastInput app))"
proof -
  have handlers: "\<forall>h \<in> {onMouseButtonDown button mx my, onMouseMove ext dx dy, onKeyDown code,
         onKeyUp code}.
       lastInput (data (h cnv)) = currentTick (data cnv)
       \<and> currentTick (data (h cnv)) = currentTick (data cnv)
       \<and> (\<not> 10000 < unat (ticks - currentTick (data cnv)) \<longrightarrow>
            updateState ext dt ticks ticks2 (data (h cnv)) =
              integrateMovement ext dt ((data (h cnv))\<lparr>currentTick := ticks\<rparr>))"
    by (simp add: handlers_record_tick handlers_keep_tick updateState_no_orbit)
  have wrap: "lastInput app \<le> ticks \<longrightarrow>
         unat (ticks - lastInput app) = unat ticks - unat (lastInput app)"
    by (simp add: unat_sub)
  note due = idleOrbitDue_integrateMovement [where ext = ext and dt = dt and app = app
      and ticks = ticks]
  note st = updateState_cases [where ext = ext and dt = dt and app = app and ticks = ticks
      and ?ticks2.0 = ticks2]
  from handlers due st wrap show ?thesis
    by (intro conjI)
qed

text \<open>On the sample canvas: a key press, then an update 10000 ticks later without orbit, and
  an update 10100 ticks after the last input with it.\<close>

theorem idle_orbit_runs_after_10000_ticks_witness:
  "lastInput (data (onKeyDown SDLK_w sampleCanvas)) = currentTick (data sampleCanvas)
   \<and> \<not> 10000 < unat (10100 - currentTick (data sampleCanvas))
   \<and> updateState sampleExtern 16 10100 10150 (data (onKeyDown SDLK_w sampleCanvas)) =
       integrateMovement sampleExtern 16 ((data (onKeyDown SDLK_w sampleCanvas))\<lparr>currentTick := 10100\<rparr>)
   \<and> lastInput sampleApp \<le> 10200
   \<and> unat (10200 - lastInput sampleApp) = unat (10200 :: Uint32) - unat (lastInput sampleApp)
   \<and> 10000 < unat (10200 - lastInput sampleApp)
   \<and> idleOrbitDue (integrateMovement sampleExtern 16 (sampleApp\<lparr>currentTick := 10200\<rparr>))
   \<and> updateState sampleExtern 16 10200 10250 sampleApp =
        calculateCameraPosAndSpeed 10250
          (integrateMovement sampleExtern 16 (sampleApp\<lparr>currentTick := 10200\<rparr>))"
proof -
  have h: "lastInput sampleApp \<le> 10200"
    by (simp add: sampleApp_def)
  have big: "10000 < unat (10200 - lastInput sampleApp)"
    by (simp add: sampleApp_def)
  have small: "\<not> 10000 < unat (10100 - currentTick (data sampleCanvas))"
    by (simp add: sampleCanvas_def sampleApp_def)
  note t = idle_orbit_runs_after_10000_ticks [where cnv = sampleCanvas and code = SDLK_w
      and ext = sampleExtern and dt = 16 and app = sampleApp and ticks = 10200
      and ?ticks2.0 = 10250]
  note t' = idle_orbit_runs_after_10000_ticks [where cnv = sampleCanvas and code = SDLK_w
      and ext = sampleExtern and dt = 16 and app = sampleApp and ticks = 10100
      and ?ticks2.0 = 10150]
  from t' small have
    "lastInput (data (onKeyDown SDLK_w sampleCanvas)) = currentTick (data sampleCanvas)
     \<and> updateState sampleExtern 16 10100 10150 (data (onKeyDown SDLK_w sampleCanvas)) =
       integrateMovement sampleExtern 16 ((data (onKeyDown SDLK_w sampleCanvas))\<lparr>currentTick := 10100\<rparr>)"
    by simp
  moreover from t h big have
    "unat (10200 - lastInput sampleApp) = unat (10200 :: Uint32) - unat (lastInput sampleApp)
     \<and> idleOrbitDue (integrateMovement sampleExtern 16 (sampleApp\<lparr>currentTick := 10200\<rparr>))
     \<and> updateState sampleExtern 16 10200 10250 sampleApp =
        calculateCameraPosAndSpeed 10250
          (integrateMovement sampleExtern 16 (sampleApp\<lparr>currentTick := 10200\<rparr>))"
    by simp
  ultimately show ?thesis
    using h big small by blast
qed

subsection \<open>C4\<close>

text \<open>C4, as stated, fails for a stored scene radius of 0: the repositioning puts the camera at
  the origin itself, the position vector has length 0 and cannot be rescaled, and the look
  direction it leaves has length 0, not 1.\<close>

theorem idle_orbit_at_radius_zero_has_no_unit_direction:
  "sceneRadius flatApp = 0
   \<and> pos (cam (scene (calculateCameraPosAndSpeed 0 flatApp))) = Vec3_new 0 0 0
   \<and> Vec3_length (pos (cam (scene (calculateCameraPosAndSpeed 0 flatApp)))) = 0
   \<and> Vec3_length (lookDirection (cam (scene (calculateCameraPosAndSpeed 0 flatApp)))) = 0
   \<and> Vec3_length (lookDirection (cam (scene (calculateCameraPosAndSpeed 0 flatApp)))) \<noteq> 1"
proof -
  have r: "sceneRadius flatApp = 0"
    by (simp add: flatApp_def)
  have z: "Vec3_length (Vec3_new 0 0 0) = 0"
    by (simp add: Vec3_length_def Vec3_sqLength_def)
  from calculateCameraPosAndSpeed_flat [OF r, of 0] r z show ?thesis
    by simp
qed

text \<open>C4, as amended. Whenever the idle-orbit repositioning runs, the camera position is set to
  the cylindrical point of radius \<open>r\<close>, angle \<open>ticks / 2000\<close> and height \<open>r / 1.2\<close>, \<open>r\<close> being the
  stored scene radius; and when \<open>r\<close> is not zero, the look direction is set to that position
  vector rescaled to length \<open>-1\<close>: the vector of length 1 that points from the new position to
  the origin.\<close>

theorem idle_orbit_camera_placement:
  "pos (cam (scene (calculateCameraPosAndSpeed ticks app))) =
     Vec3_cylindrical (sceneRadius app) (real (unat ticks) / 2000) (sceneRadius app / 1.2)
   \<and> (sceneRadius app \<noteq> 0 \<longrightarrow>
        lookDirection (cam (scene (calculateCameraPosAndSpeed ticks app))) =
          Vec3_setLength (pos (cam (scene (calculateCameraPosAndSpeed ticks app)))) (- 1)
        \<and> Vec3_length (pos (cam (scene (calculateCameraPosAndSpeed ticks app)))) \<noteq> 0
        \<and> Vec3_length (lookDirection (cam (scene (calculateCameraPosAndSpeed ticks app)))) = 1
        \<and> lookDirection (cam (scene (calculateCameraPosAndSpeed ticks app))) =
            Vec3_mult (Vec3_sub (Vec3_new 0 0 0)
                         (pos (cam (scene (calculateCameraPosAndSpeed ticks app)))))
              (1 / Vec3_length (pos (cam (scene (calculateCameraPosAndSpeed ticks app))))))"
proof -
  define newPos where
    "newPos = Vec3_cylindrical (sceneRadius app) (real (unat ticks) / 2000) (sceneRadius app / 1.2)"
  have p: "pos (cam (scene (calculateCameraPosAndSpeed ticks app))) = newPos"
    by (simp add: calculateCameraPosAndSpeed_pos newPos_def)
  have "sceneRadius app \<noteq> 0 \<longrightarrow>
        lookDirection (cam (scene (calculateCameraPosAndSpeed ticks app))) =
          Vec3_setLength newPos (- 1)
        \<and> Vec3_length newPos \<noteq> 0
        \<and> Vec3_length (lookDirection (cam (scene (calculateCameraPosAndSpeed ticks app)))) = 1
        \<and> lookDirection (cam (scene (calculateCameraPosAndSpeed ticks app))) =
            Vec3_mult (Vec3_sub (Vec3_new 0 0 0) newPos) (1 / Vec3_length newPos)"
  proof
    assume r: "sceneRadius app \<noteq> 0"
    have nz: "Vec3_length newPos \<noteq> 0"
      unfolding newPos_def using r by (rule Vec3_length_cylindrical_nonzero)
    have l: "lookDirection (cam (scene (calculateCameraPosAndSpeed ticks app))) =
          Vec3_setLength newPos (- 1)"
      unfolding newPos_def using r by (rule calculateCameraPosAndSpeed_look(1))
    have u: "Vec3_length (lookDirection (cam (scene (calculateCameraPosAndSpeed ticks app)))) = 1"
      using r by (rule calculateCameraPosAndSpeed_look(2))
    have "Vec3_setLength newPos (- 1) =
        Vec3_mult (Vec3_sub (Vec3_new 0 0 0) newPos) (1 / Vec3_length newPos)"
      using nz by (simp add: Vec3_setLength_nonzero Vec3_sub_origin Vec3_mult_mult)
    with l have d: "lookDirection (cam (scene (calculateCameraPosAndSpeed ticks app))) =
        Vec3_mult (Vec3_sub (Vec3_new 0 0 0) newPos) (1 / Vec3_length newPos)"
      by simp
    from l nz u d show "lookDirection (cam (scene (calculateCameraPosAndSpeed ticks app))) =
          Vec3_setLength newPos (- 1)
        \<and> Vec3_length newPos \<noteq> 0
        \<and> Vec3_length (lookDirection (cam (scene (calculateCameraPosAndSpeed ticks app)))) = 1
        \<and> lookDirection (cam (scene (calculateCameraPosAndSpeed ticks app))) =
            Vec3_mult (Vec3_sub (Vec3_new 0 0 0) newPos) (1 / Vec3_length newPos)"
      by (intro conjI)
  qed
  then show ?thesis
    unfolding p by (simp only: newPos_def simp_thms)
qed

text \<open>On the sample application, of radius 3, at tick 0.\<close>

theorem idle_orbit_camera_placement_witness:
  "sceneRadius sampleApp \<noteq> 0
   \<and> pos (cam (scene (calculateCameraPosAndSpeed 0 sampleApp))) = Vec3_new 3 (5 / 2) 0
   \<and> Vec3_length (lookDirection (cam (scene (calculateCameraPosAndSpeed 0 sampleApp)))) = 1"
proof -
  have h: "sceneRadius sampleApp \<noteq> 0"
    by (simp add: sampleApp_def)
  have c: "Vec3_cylindrical (sceneRadius sampleApp) (real (unat (0 :: Uint32)) / 2000)
          (sceneRadius sampleApp / 1.2) = Vec3_new 3 (5 / 2) 0"
    by (simp add: sampleApp_def Vec3_cylindrical_def)
  note t = idle_orbit_camera_placement [of 0 sampleApp]
  from t have "pos (cam (scene (calculateCameraPosAndSpeed 0 sampleApp))) =
     Vec3_cylindrical (sceneRadius sampleApp) (real (unat (0 :: Uint32)) / 2000)
       (sceneRadius sampleApp / 1.2)"
    by (rule conjunct1)
  then have p: "pos (cam (scene (calculateCameraPosAndSpeed 0 sampleApp))) = Vec3_new 3 (5 / 2) 0"
    by (simp only: c)
  from t h have "Vec3_length (lookDirection (cam (scene (calculateCameraPosAndSpeed 0 sampleApp)))) = 1"
    by blast
  with h p show ?thesis
    by (intro conjI)
qed

subsection \<open>C5\<close>




subsection \<open>C6\<close>

text \<open>C6. Within a frame step the state changes of \<^verbatim>\<open>update\<close> (tick, movement integration,
  possible idle orbit) are complete before the vertices are projected: the projected points of
  the result are the projections of all vertices with the camera those state changes produced,
  and the projection changes neither camera nor vertices nor edges. \<^verbatim>\<open>draw\<close> leaves the application
  data, camera and scene included, as they are, and what it draws depends on the projected
  points and the edges only.\<close>

theorem update_projects_with_the_updated_camera:
  "cam (scene (data (update ext dt ticks ticks2 cnv))) =
     cam (scene (updateState ext dt ticks ticks2 (data cnv)))
   \<and> vertices (scene (data (update ext dt ticks ticks2 cnv))) =
       vertices (scene (updateState ext dt ticks ticks2 (data cnv)))
   \<and> edges (scene (data (update ext dt ticks ticks2 cnv))) =
       edges (scene (updateState ext dt ticks ticks2 (data cnv)))
   \<and> projectedPoints (scene (data (update ext dt ticks ticks2 cnv))) =
       map (Camera_project ext (cam (scene (updateState ext dt ticks ticks2 (data cnv)))))
         (vertices (scene (updateState ext dt ticks ticks2 (data cnv))))
   \<and> (\<forall>cnv''. draw (update ext dt ticks ticks2 cnv) = Some cnv'' \<longrightarrow>
         data cnv'' = data (update ext dt ticks ticks2 cnv))
   \<and> (\<forall>c. projectedPoints (scene (data c)) =
            projectedPoints (scene (data (update ext dt ticks ticks2 cnv)))
          \<and> edges (scene (data c)) = edges (scene (data (update ext dt ticks ticks2 cnv)))
        \<longrightarrow> map_option drawn (draw c) = map_option drawn (draw (update ext dt ticks ticks2 cnv)))"
proof -
  define cnv' where "cnv' = update ext dt ticks ticks2 cnv"
  define app where "app = updateState ext dt ticks ticks2 (data cnv)"
  have res: "cnv' = cnv\<lparr>data := app\<lparr>scene := Scene_projectPoints ext (scene app)\<rparr>\<rparr>"
    by (simp add: cnv'_def app_def update_def Let_def)
  have keeps: "\<forall>cnv''. draw cnv' = Some cnv'' \<longrightarrow> data cnv'' = data cnv'"
    by (blast dest: draw_data)
  have reads: "\<forall>c. projectedPoints (scene (data c)) = projectedPoints (scene (data cnv'))
             \<and> edges (scene (data c)) = edges (scene (data cnv'))
           \<longrightarrow> map_option drawn (draw c) = map_option drawn (draw cnv')"
  proof (intro allI impI, elim conjE)
    fix c :: CCanvas
    assume "projectedPoints (scene (data c)) = projectedPoints (scene (data cnv'))"
      and "edges (scene (data c)) = edges (scene (data cnv'))"
    then show "map_option drawn (draw c) = map_option drawn (draw cnv')"
      by (rule draw_reads_points_and_edges)
  qed
  have f1: "cam (scene (data cnv')) = cam (scene app)"
    and f2: "vertices (scene (data cnv')) = vertices (scene app)"
    and f3: "edges (scene (data cnv')) = edges (scene app)"
    and f4: "projectedPoints (scene (data cnv')) =
         map (Camera_project ext (cam (scene app))) (vertices (scene app))"
    using res by (simp_all add: Scene_projectPoints_def)
  from f1 f2 f3 f4 keeps reads show ?thesis
    unfolding cnv'_def app_def by (intro conjI)
qed

text \<open>On the sample canvas: an update 16 ticks after the last input, then a draw.\<close>

theorem update_projects_with_the_updated_camera_witness:
  "\<exists>cnv''. draw (update sampleExtern 16 116 116 sampleCanvas) = Some cnv''
     \<and> data cnv'' = data (update sampleExtern 16 116 116 sampleCanvas)
     \<and> length (projectedPoints (scene (data (update sampleExtern 16 116 116 sampleCanvas)))) = 2"
proof -
  define cnv' where "cnv' = update sampleExtern 16 116 116 sampleCanvas"
  have pts: "length (projectedPoints (scene (data cnv'))) = 2"
    and vs: "length (vertices (scene (data cnv'))) = 2"
    and es: "edges (scene (data cnv')) = [Edge_new 0 1]"
    unfolding cnv'_def
    by (simp_all add: update_geometry sampleCanvas_def sampleApp_def sampleScene_def)
  from pts es obtain cnv'' where d: "draw cnv' = Some cnv''"
    using drawEdges_in_range [of "edges (scene (data cnv'))" "projectedPoints (scene (data cnv'))"
        "CCanvas_clear cnv'"]
    by (auto simp: draw_def Let_def)
  note t = update_projects_with_the_updated_camera [of sampleExtern 16 116 116 sampleCanvas]
  from t have "\<forall>cnv''. draw cnv' = Some cnv'' \<longrightarrow> data cnv'' = data cnv'"
    unfolding cnv'_def by (elim conjE)
  with d have "data cnv'' = data cnv'"
    by blast
  with d pts show ?thesis
    unfolding cnv'_def by blast
qed

subsection \<open>C7\<close>

text \<open>C7. At initialization, after the scene is erased, a default camera is installed: positioned
  at the origin, with up vector \<open>(0, 1, 0)\<close>, horizontal and vertical field of view \<open>3.14 / 3\<close>
  and a viewport equal to the window's 512 by 512 pixels, over an empty scene. When \<^verbatim>\<open>init\<close> has
  finished, up vector, fields of view and viewport are still these, and the camera has been
  moved from the origin to its place on the orbit around the loaded scene.\<close>

theorem init_installs_default_camera:
  "pos (cam (scene (data (initDefaults ext ticks cnv)))) = Vec3_new 0 0 0
   \<and> up (cam (scene (data (initDefaults ext ticks cnv)))) = Vec3_new 0 1 0
   \<and> fovHorizontal (cam (scene (data (initDefaults ext ticks cnv)))) = 3.14 / 3
   \<and> fovVertical (cam (scene (data (initDefaults ext ticks cnv)))) = 3.14 / 3
   \<and> viewportWidth (cam (scene (data (initDefaults ext ticks cnv)))) = windowWidth
   \<and> viewportHeight (cam (scene (data (initDefaults ext ticks cnv)))) = windowHeight
   \<and> windowWidth = 512 \<and> windowHeight = 512
   \<and> vertices (scene (data (initDefaults ext ticks cnv))) = []
   \<and> edges (scene (data (initDefaults ext ticks cnv))) = []
   \<and> up (cam (scene (data (init ext ticks ticks2 cnv)))) = Vec3_new 0 1 0
   \<and> fovHorizontal (cam (scene (data (init ext ticks ticks2 cnv)))) = 3.14 / 3
   \<and> fovVertical (cam (scene (data (init ext ticks ticks2 cnv)))) = 3.14 / 3
   \<and> viewportWidth (cam (scene (data (init ext ticks ticks2 cnv)))) = windowWidth
   \<and> viewportHeight (cam (scene (data (init ext ticks ticks2 cnv)))) = windowHeight
   \<and> pos (cam (scene (data (init ext ticks ticks2 cnv)))) =
       Vec3_cylindrical (sceneRadius (data (init ext ticks ticks2 cnv)))
         (real (unat ticks2) / 2000) (sceneRadius (data (init ext ticks ticks2 cnv)) / 1.2)"
proof -
  have installed: "pos (cam (scene (data (initDefaults ext ticks cnv)))) = Vec3_new 0 0 0
   \<and> up (cam (scene (data (initDefaults ext ticks cnv)))) = Vec3_new 0 1 0
   \<and> fovHorizontal (cam (scene (data (initDefaults ext ticks cnv)))) = 3.14 / 3
   \<and> fovVertical (cam (scene (data (initDefaults ext ticks cnv)))) = 3.14 / 3
   \<and> viewportWidth (cam (scene (data (initDefaults ext ticks cnv)))) = windowWidth
   \<and> viewportHeight (cam (scene (data (initDefaults ext ticks cnv)))) = windowHeight
   \<and> windowWidth = 512 \<and> windowHeight = 512"
    by (simp add: initDefaults_camera Camera_new_def windowWidth_def windowHeight_def)
  have geo: "vertices (scene (data (initDefaults ext ticks cnv))) = []
      \<and> edges (scene (data (initDefaults ext ticks cnv))) = []"
    by (simp add: initDefaults_geometry)
  note c = init_camera [of ext ticks ticks2 cnv]
  have after: "up (cam (scene (data (init ext ticks ticks2 cnv)))) = Vec3_new 0 1 0
   \<and> fovHorizontal (cam (scene (data (init ext ticks ticks2 cnv)))) = 3.14 / 3
   \<and> fovVertical (cam (scene (data (init ext ticks ticks2 cnv)))) = 3.14 / 3
   \<and> viewportWidth (cam (scene (data (init ext ticks ticks2 cnv)))) = windowWidth
   \<and> viewportHeight (cam (scene (data (init ext ticks ticks2 cnv)))) = windowHeight"
    by (subst c, subst c, subst c, subst c, subst c)
       (simp add: Camera_new_def windowWidth_def windowHeight_def)
  have moved: "pos (cam (scene (data (init ext ticks ticks2 cnv)))) =
       Vec3_cylindrical (sceneRadius (data (init ext ticks ticks2 cnv)))
         (real (unat ticks2) / 2000) (sceneRadius (data (init ext ticks ticks2 cnv)) / 1.2)"
    by (simp add: init_data calculateCameraPosAndSpeed_frame)
  from installed geo after moved show ?thesis
    by (intro conjI) (elim conjE, assumption)+
qed


text \<open>On the sample canvas, whose base scene has radius 1.\<close>

theorem init_installs_default_camera_witness:
  "up (cam (scene (data (init sampleExtern 0 0 sampleCanvas)))) = Vec3_new 0 1 0
   \<and> fovHorizontal (cam (scene (data (init sampleExtern 0 0 sampleCanvas)))) = 3.14 / 3
   \<and> viewportWidth (cam (scene (data (init sampleExtern 0 0 sampleCanvas)))) = 512
   \<and> viewportHeight (cam (scene (data (init sampleExtern 0 0 sampleCanvas)))) = 512
   \<and> pos (cam (scene (data (init sampleExtern 0 0 sampleCanvas)))) = Vec3_new 1 (5 / 6) 0"
proof -
  have r: "sceneRadius (data (init sampleExtern 0 0 sampleCanvas)) = 1"
    by (simp add: init_data calculateCameraPosAndSpeed_frame calculateSceneRadius_def
        sampleExtern_def)
  have c: "Vec3_cylindrical 1 (real (unat (0 :: Uint32)) / 2000) (1 / 1.2) = Vec3_new 1 (5 / 6) 0"
    by (simp add: Vec3_cylindrical_def)
  note t = init_installs_default_camera [of sampleExtern 0 sampleCanvas 0]
  from t have "pos (cam (scene (data (init sampleExtern 0 0 sampleCanvas)))) =
       Vec3_cylindrical (sceneRadius (data (init sampleExtern 0 0 sampleCanvas)))
         (real (unat (0 :: Uint32)) / 2000) (sceneRadius (data (init sampleExtern 0 0 sampleCanvas)) / 1.2)"
    by (elim conjE)
  then have p: "pos (cam (scene (data (init sampleExtern 0 0 sampleCanvas)))) = Vec3_new 1 (5 / 6) 0"
    by (simp only: r c)
  from t p show ?thesis
    by (simp add: windowWidth_def windowHeight_def)
qed

subsection \<open>C8\<close>

text \<open>C8. The force applied to the velocity in an update step and the radius and height of the
  idle-orbit position are linear in the stored scene radius: with the radius scaled by a
  factor \<open>k\<close>, the applied force is the former force scaled by \<open>k\<close> (its magnitude by \<open>\<bar>k\<bar>\<close>),
  and the orbit position is the cylindrical point with radius and height scaled by \<open>k\<close>.\<close>

theorem force_and_orbit_scale_with_radius:
  "appliedForce ext dt (app\<lparr>sceneRadius := k * sceneRadius app\<rparr>) =
     Vec3_mult (appliedForce ext dt app) k
   \<and> Vec3_length (appliedForce ext dt (app\<lparr>sceneRadius := k * sceneRadius app\<rparr>)) =
       \<bar>k\<bar> * Vec3_length (appliedForce ext dt app)
   \<and> pos (cam (scene (calculateCameraPosAndSpeed ticks app))) =
       Vec3_cylindrical (sceneRadius app) (real (unat ticks) / 2000) (sceneRadius app / 1.2)
   \<and> pos (cam (scene (calculateCameraPosAndSpeed ticks (app\<lparr>sceneRadius := k * sceneRadius app\<rparr>)))) =
       Vec3_cylindrical (k * sceneRadius app) (real (unat ticks) / 2000)
         (k * (sceneRadius app / 1.2))
   \<and> pos (cam (scene (calculateCameraPosAndSpeed ticks (app\<lparr>sceneRadius := k * sceneRadius app\<rparr>)))) =
       Vec3_mult (pos (cam (scene (calculateCameraPosAndSpeed ticks app)))) k"
proof -
  have f: "appliedForce ext dt (app\<lparr>sceneRadius := k * sceneRadius app\<rparr>) =
      Vec3_mult (appliedForce ext dt app) k"
    by (rule appliedForce_scaled)
  have m: "Vec3_length (appliedForce ext dt (app\<lparr>sceneRadius := k * sceneRadius app\<rparr>)) =
       \<bar>k\<bar> * Vec3_length (appliedForce ext dt app)"
    by (simp only: f Vec3_length_mult)
  have p: "pos (cam (scene (calculateCameraPosAndSpeed ticks app))) =
       Vec3_cylindrical (sceneRadius app) (real (unat ticks) / 2000) (sceneRadius app / 1.2)"
    by (rule calculateCameraPosAndSpeed_pos)
  have p': "pos (cam (scene (calculateCameraPosAndSpeed ticks (app\<lparr>sceneRadius := k * sceneRadius app\<rparr>)))) =
       Vec3_cylindrical (k * sceneRadius app) (real (unat ticks) / 2000)
         (k * sceneRadius app / 1.2)"
    by (simp add: calculateCameraPosAndSpeed_pos)
  then have p'': "pos (cam (scene (calculateCameraPosAndSpeed ticks (app\<lparr>sceneRadius := k * sceneRadius app\<rparr>)))) =
       Vec3_cylindrical (k * sceneRadius app) (real (unat ticks) / 2000)
         (k * (sceneRadius app / 1.2))"
    by (simp only: times_divide_eq_right)
  have s: "pos (cam (scene (calculateCameraPosAndSpeed ticks (app\<lparr>sceneRadius := k * sceneRadius app\<rparr>)))) =
       Vec3_mult (pos (cam (scene (calculateCameraPosAndSpeed ticks app)))) k"
    by (simp only: p p' Vec3_cylindrical_scaled)
  from f m p p'' s show ?thesis
    by (intro conjI)
qed

text \<open>On the sample application: the radius 3 doubled.\<close>

theorem force_and_orbit_scale_with_radius_witness:
  "pos (cam (scene (calculateCameraPosAndSpeed 0 sampleApp))) = Vec3_new 3 (5 / 2) 0
   \<and> pos (cam (scene (calculateCameraPosAndSpeed 0
        (sampleApp\<lparr>sceneRadius := 2 * sceneRadius sampleApp\<rparr>)))) = Vec3_new 6 5 0
   \<and> appliedForce sampleExtern 16 (sampleApp\<lparr>sceneRadius := 2 * sceneRadius sampleApp\<rparr>) =
       Vec3_mult (appliedForce sampleExtern 16 sampleApp) 2"
proof -
  have c: "Vec3_cylindrical (sceneRadius sampleApp) (real (unat (0 :: Uint32)) / 2000)
          (sceneRadius sampleApp / 1.2) = Vec3_new 3 (5 / 2) 0"
    by (simp add: sampleApp_def Vec3_cylindrical_def)
  have c': "Vec3_cylindrical (2 * sceneRadius sampleApp) (real (unat (0 :: Uint32)) / 2000)
          (2 * (sceneRadius sampleApp / 1.2)) = Vec3_new 6 5 0"
    by (simp add: sampleApp_def Vec3_cylindrical_def)
  note t = force_and_orbit_scale_with_radius [where ext = sampleExtern and dt = 16
      and app = sampleApp and k = 2 and ticks = 0]
  from t have "pos (cam (scene (calculateCameraPosAndSpeed 0 sampleApp))) =
       Vec3_cylindrical (sceneRadius sampleApp) (real (unat (0 :: Uint32)) / 2000)
         (sceneRadius sampleApp / 1.2)"
    by (elim conjE)
  then have p: "pos (cam (scene (calculateCameraPosAndSpeed 0 sampleApp))) = Vec3_new 3 (5 / 2) 0"
    by (simp only: c)
  from t have "pos (cam (scene (calculateCameraPosAndSpeed 0
        (sampleApp\<lparr>sceneRadius := 2 * sceneRadius sampleApp\<rparr>)))) =
       Vec3_cylindrical (2 * sceneRadius sampleApp) (real (unat (0 :: Uint32)) / 2000)
         (2 * (sceneRadius sampleApp / 1.2))"
    by (elim conjE)
  then have p': "pos (cam (scene (calculateCameraPosAndSpeed 0
        (sampleApp\<lparr>sceneRadius := 2 * sceneRadius sampleApp\<rparr>)))) = Vec3_new 6 5 0"
    by (simp only: c')
  from t have f: "appliedForce sampleExtern 16 (sampleApp\<lparr>sceneRadius := 2 * sceneRadius sampleApp\<rparr>) =
       Vec3_mult (appliedForce sampleExtern 16 sampleApp) 2"
    by (elim conjE)
  from p p' f show ?thesis
    by (intro conjI)
qed

subsection \<open>C9\<close>

text \<open>C9. In an update step in which the idle orbit does not engage, the camera position moves
  by the new velocity times \<open>dt / 1000\<close>, and the camera's up vector, look direction, field-of-view
  angles and viewport dimensions and the scene's vertices and edges are unchanged; so are the
  move force, the scene radius, the last input time and the six movement flags.\<close>

theorem update_without_orbit_moves_position_and_velocity_only:
  assumes "\<not> 10000 < unat (ticks - lastInput (data cnv))"
  shows "pos (cam (scene (data (update ext dt ticks ticks2 cnv)))) =
         Vec3_add (pos (cam (scene (data cnv))))
           (Vec3_mult (vel (data (update ext dt ticks ticks2 cnv))) (dt / 1000))
     \<and> up (cam (scene (data (update ext dt ticks ticks2 cnv)))) = up (cam (scene (data cnv)))
     \<and> lookDirection (cam (scene (data (update ext dt ticks ticks2 cnv)))) =
         lookDirection (cam (scene (data cnv)))
     \<and> fovHorizontal (cam (scene (data (update ext dt ticks ticks2 cnv)))) =
         fovHorizontal (cam (scene (data cnv)))
     \<and> fovVertical (cam (scene (data (update ext dt ticks ticks2 cnv)))) =
         fovVertical (cam (scene (data cnv)))
     \<and> viewportWidth (cam (scene (data (update ext dt ticks ticks2 cnv)))) =
         viewportWidth (cam (scene (data cnv)))
     \<and> viewportHeight (cam (scene (data (update ext dt ticks ticks2 cnv)))) =
         viewportHeight (cam (scene (data cnv)))
     \<and> vertices (scene (data (update ext dt ticks ticks2 cnv))) = vertices (scene (data cnv))
     \<and> edges (scene (data (update ext dt ticks ticks2 cnv))) = edges (scene (data cnv))
     \<and> moveForce (data (update ext dt ticks ticks2 cnv)) = moveForce (data cnv)
     \<and> sceneRadius (data (update ext dt ticks ticks2 cnv)) = sceneRadius (data cnv)
     \<and> lastInput (data (update ext dt ticks ticks2 cnv)) = lastInput (data cnv)
     \<and> (movingForward (data (update ext dt ticks ticks2 cnv)),
         movingBackward (data (update ext dt ticks ticks2 cnv)),
         movingLeft (data (update ext dt ticks ticks2 cnv)),
         movingRight (data (update ext dt ticks ticks2 cnv)),
         movingUp (data (update ext dt ticks ticks2 cnv)),
         movingDown (data (update ext dt ticks ticks2 cnv))) =
        (movingForward (data cnv), movingBackward (data cnv), movingLeft (data cnv),
         movingRight (data cnv), movingUp (data cnv), movingDown (data cnv))"
  by (simp add: update_no_orbit_eq [OF assms] integrateMovement_frame Scene_projectPoints_def)

text \<open>On the sample canvas: an update 16 ticks after the last input.\<close>

theorem update_without_orbit_moves_position_and_velocity_only_witness:
  "\<not> 10000 < unat (116 - lastInput (data sampleCanvas))
   \<and> up (cam (scene (data (update sampleExtern 16 116 116 sampleCanvas)))) = Vec3_new 0 1 0
   \<and> lookDirection (cam (scene (data (update sampleExtern 16 116 116 sampleCanvas)))) =
       Vec3_new 0 0 1
   \<and> vertices (scene (data (update sampleExtern 16 116 116 sampleCanvas))) =
       [Vec3_new 0 0 0, Vec3_new 1 0 0]
   \<and> edges (scene (data (update sampleExtern 16 116 116 sampleCanvas))) = [Edge_new 0 1]"
proof -
  have h: "\<not> 10000 < unat (116 - lastInput (data sampleCanvas))"
    by (simp add: sampleCanvas_def sampleApp_def)
  from update_without_orbit_moves_position_and_velocity_only [OF h, of sampleExtern 16 116] h
  show ?thesis
    by (simp add: sampleCanvas_def sampleApp_def sampleScene_def sampleCamera_def)
qed

subsection \<open>C10\<close>




end
